theory Spec2Isabelle
  imports Complex_Main "HOL-Library.Word"
begin

unbundle bit_operations_syntax

section \<open>The peer-presence beacon of testdistributed_app_simple/main.py\<close>

text \<open>
  The program talks to the outside world only through library calls: the clock, the
  resolver, the UDP socket, standard output and \<open>time.sleep\<close>. The embedding makes both
  directions explicit. What a call returns or raises is read from a record of the
  environment (\<open>world\<close>); what the program does is written to a trace of \<open>event\<close>s,
  in program order. A function of the program becomes a function from the configuration
  and the environment to its trace and its result.
\<close>

subsection \<open>Exceptions\<close>

text \<open>
  Every handler of the program is \<open>except Exception as e\<close>. It catches the instances of
  \<open>Exception\<close> (socket.gaierror, OSError, UnicodeDecodeError, OverflowError, ...) and lets
  every other \<open>BaseException\<close> (KeyboardInterrupt, SystemExit) through. The string is
  \<open>str(e)\<close>, which the handlers interpolate as \<open>{e}\<close>.
\<close>

datatype exn = Exception string | NonException string

subsection \<open>Configuration (lines 14 to 17)\<close>

text \<open>
  The four module-level constants, read once from the process environment. \<open>PERIOD\<close> is
  a Python float; the model takes its value as a real number (infinities and NaN are outside
  the model).
\<close>

record config =
  MESSAGE_ID :: string
  PERIOD :: real
  PORT :: int
  PEER_SERVICE_DNS :: string

subsection \<open>Data of the library calls\<close>

type_synonym bytes = "8 word list"

text \<open>An \<open>AF_INET\<close> socket address: \<open>(host, port)\<close>.\<close>

type_synonym address = "string \<times> int"

text \<open>
  One entry of \<open>socket.getaddrinfo\<close>: the 5-tuple
  \<open>(family, type, proto, canonname, sockaddr)\<close>.
\<close>

type_synonym addrinfo = "int \<times> int \<times> int \<times> string \<times> address"

record datetime =
  hour :: nat
  minute :: nat
  second :: nat
  microsecond :: nat

datatype sockopt = SO_REUSEADDR | SO_BROADCAST

subsection \<open>The environment\<close>

text \<open>
  \<open>now w k\<close> is the value of the \<open>k\<close>-th call of \<open>datetime.now()\<close> (counted from 0);
  the functions below thread the count \<open>k\<close>. The other fields give the outcome of one
  library call each: \<open>Inr\<close> its return value, \<open>Inl\<close> the exception it raises.
  \<open>getaddrinfo w host\<close> stands for \<open>socket.getaddrinfo(host, None, socket.AF_INET)\<close>.
  \<open>decoded_text\<close> and \<open>decode_error\<close> give the text of a well-formed payload and the
  \<open>str\<close> of the UnicodeDecodeError of an ill-formed one; \<open>str_float\<close> is Python's
  formatting of a float.
\<close>

record world =
  now :: "nat \<Rightarrow> datetime"
  gethostname :: "exn + string"
  gethostbyname :: "string \<Rightarrow> exn + string"
  getaddrinfo :: "string \<Rightarrow> exn + addrinfo list"
  socket_new :: "exn + unit"
  setsockopt :: "sockopt \<Rightarrow> exn + unit"
  bind_to :: "address \<Rightarrow> exn + unit"
  sendto :: "bytes \<Rightarrow> address \<Rightarrow> exn + nat"
  decoded_text :: "bytes \<Rightarrow> string"
  decode_error :: "bytes \<Rightarrow> string"
  str_float :: "real \<Rightarrow> string"

subsection \<open>The trace\<close>

text \<open>
  One event per library call with an effect outside the process, recorded when the call is
  made, whatever its outcome: \<open>Sendto\<close> is a transmission attempt. \<open>Stdout\<close> carries the
  line that \<open>print\<close> writes; writing to standard output is taken to succeed. \<open>Sleep\<close> is
  recorded only when \<open>time.sleep\<close> accepts its argument.
\<close>

datatype event =
    Stdout string
  | Gethostname
  | Gethostbyname string
  | Getaddrinfo string
  | Socket
  | Setsockopt sockopt
  | Bind address
  | Recvfrom nat
  | Sendto bytes address
  | Sleep real

subsection \<open>Formatting\<close>

text \<open>\<open>str(n)\<close> for a non-negative integer, and \<open>str(i)\<close> for any integer.\<close>

definition digit :: "nat \<Rightarrow> char" where
  "digit n = ''0123456789'' ! n"

function str_nat :: "nat \<Rightarrow> string" where
  "str_nat n = (if n < 10 then [digit n] else str_nat (n div 10) @ [digit (n mod 10)])"
  by pat_completeness auto
termination
  by (relation "measure id") auto

declare str_nat.simps [simp del]

definition str_int :: "int \<Rightarrow> string" where
  "str_int i = (if i < 0 then CHR ''-'' # str_nat (nat (- i)) else str_nat (nat i))"

text \<open>Zero padding to a minimal width, as \<open>strftime\<close> pads its numeric fields.\<close>

definition zfill :: "nat \<Rightarrow> string \<Rightarrow> string" where
  "zfill width s = replicate (width - length s) CHR ''0'' @ s"

text \<open>\<open>t.strftime("%H:%M:%S.%f")\<close>: two digits each, then six digits of microseconds.\<close>

definition strftime_HMSf :: "datetime \<Rightarrow> string" where
  "strftime_HMSf t =
     zfill 2 (str_nat (hour t)) @ '':'' @ zfill 2 (str_nat (minute t)) @ '':'' @
     zfill 2 (str_nat (second t)) @ ''.'' @ zfill 6 (str_nat (microsecond t))"

text \<open>\<open>t.strftime("%H:%M:%S.%f")[:-3]\<close>, the expression of lines 9 and 85.\<close>

definition timestamp :: "datetime \<Rightarrow> string" where
  "timestamp t = (let s = strftime_HMSf t in take (length s - 3) s)"

text \<open>
  \<open>s.encode('utf-8')\<close>. A \<open>char\<close> is a code point below 256, so the encoding has one or
  two bytes per character and never fails.
\<close>

definition utf8_char :: "char \<Rightarrow> bytes" where
  "utf8_char c =
     (let n = (of_char c :: 8 word) in
      if n < 0x80 then [n] else [0xC0 OR drop_bit 6 n, 0x80 OR (n AND 0x3F)])"

definition utf8_encode :: "string \<Rightarrow> bytes" where
  "utf8_encode s = concat (map utf8_char s)"

text \<open>
  Whether \<open>data.decode('utf-8')\<close> succeeds: the well-formed byte sequences of UTF-8
  (no overlong forms, no surrogates, nothing above U+10FFFF), which is what the strict
  decoder accepts.
\<close>

definition cont :: "8 word \<Rightarrow> bool" where
  "cont b = (0x80 \<le> b \<and> b \<le> 0xBF)"

text \<open>The range of the second byte, which depends on the lead byte.\<close>

definition second_byte_ok :: "8 word \<Rightarrow> 8 word \<Rightarrow> bool" where
  "second_byte_ok b0 b1 =
     (if b0 = 0xE0 then 0xA0 \<le> b1 \<and> b1 \<le> 0xBF
      else if b0 = 0xED then 0x80 \<le> b1 \<and> b1 \<le> 0x9F
      else if b0 = 0xF0 then 0x90 \<le> b1 \<and> b1 \<le> 0xBF
      else if b0 = 0xF4 then 0x80 \<le> b1 \<and> b1 \<le> 0x8F
      else cont b1)"

fun valid_utf8 :: "bytes \<Rightarrow> bool" where
  "valid_utf8 [] = True"
| "valid_utf8 (b0 # bs) =
     (if b0 \<le> 0x7F then valid_utf8 bs
      else if 0xC2 \<le> b0 \<and> b0 \<le> 0xDF then
        (case bs of b1 # r \<Rightarrow> cont b1 \<and> valid_utf8 r | _ \<Rightarrow> False)
      else if 0xE0 \<le> b0 \<and> b0 \<le> 0xEF then
        (case bs of b1 # b2 # r \<Rightarrow> second_byte_ok b0 b1 \<and> cont b2 \<and> valid_utf8 r
                  | _ \<Rightarrow> False)
      else if 0xF0 \<le> b0 \<and> b0 \<le> 0xF4 then
        (case bs of b1 # b2 # b3 # r \<Rightarrow>
                      second_byte_ok b0 b1 \<and> cont b2 \<and> cont b3 \<and> valid_utf8 r
                  | _ \<Rightarrow> False)
      else False)"

text \<open>
  \<open>data.decode('utf-8')\<close>: the text of a well-formed payload, UnicodeDecodeError (an
  \<open>Exception\<close>) for any other.
\<close>

definition decode_utf8 :: "world \<Rightarrow> bytes \<Rightarrow> exn + string" where
  "decode_utf8 w data_in =
     (if valid_utf8 data_in then Inr (decoded_text w data_in)
      else Inl (Exception (decode_error w data_in)))"

subsection \<open>log (lines 8 to 10)\<close>

text \<open>The line \<open>f"[{timestamp}] {msg}"\<close> for the clock value \<open>t\<close>.\<close>

definition log_line :: "datetime \<Rightarrow> string \<Rightarrow> string" where
  "log_line t msg = ''['' @ timestamp t @ ''] '' @ msg"

text \<open>Reads the clock once and prints one line. Returns the trace and the new clock count.\<close>

definition log :: "world \<Rightarrow> nat \<Rightarrow> string \<Rightarrow> event list \<times> nat" where
  "log w k msg = ([Stdout (log_line (now w k) msg)], Suc k)"

subsection \<open>get_peer_ips (lines 19 to 44)\<close>

text \<open>\<open>result[4][0]\<close>\<close>

definition ip_of :: "addrinfo \<Rightarrow> string" where
  "ip_of result = (case result of (family, socktype, proto, canonname, sockaddr) \<Rightarrow> fst sockaddr)"

text \<open>
  \<open>ips.add(ip)\<close> on a Python set, kept as a duplicate-free list in order of first
  insertion. The order in which \<open>list(ips)\<close> enumerates a set is not fixed by Python;
  the theorems below speak of the elements and their number only.
\<close>

definition set_add :: "string \<Rightarrow> string list \<Rightarrow> string list" where
  "set_add ip ips = (if ip \<in> set ips then ips else ips @ [ip])"

text \<open>The loop of lines 32 to 35.\<close>

fun collect_ips :: "string \<Rightarrow> addrinfo list \<Rightarrow> string list \<Rightarrow> string list" where
  "collect_ips my_ip [] ips = ips"
| "collect_ips my_ip (result # results) ips =
     (let ip = ip_of result in
      collect_ips my_ip results (if ip \<noteq> my_ip then set_add ip ips else ips))"

text \<open>The body of the \<open>try\<close> (lines 26 to 41): the calls made, and the value or exception.\<close>

definition resolve_body :: "config \<Rightarrow> world \<Rightarrow> event list \<times> (exn + string list)" where
  "resolve_body cfg w =
     (case gethostname w of
        Inl e \<Rightarrow> ([Gethostname], Inl e)
      | Inr host \<Rightarrow>
         (case gethostbyname w host of
            Inl e \<Rightarrow> ([Gethostname, Gethostbyname host], Inl e)
          | Inr my_ip \<Rightarrow>
             (case getaddrinfo w (PEER_SERVICE_DNS cfg) of
                Inl e \<Rightarrow>
                  ([Gethostname, Gethostbyname host, Getaddrinfo (PEER_SERVICE_DNS cfg)], Inl e)
              | Inr results \<Rightarrow>
                  ([Gethostname, Gethostbyname host, Getaddrinfo (PEER_SERVICE_DNS cfg)],
                   Inr (collect_ips my_ip results [])))))"

text \<open>Returns the trace, the new clock count, and the list returned or the exception raised.\<close>

definition get_peer_ips ::
  "config \<Rightarrow> world \<Rightarrow> nat \<Rightarrow> event list \<times> nat \<times> (exn + string list)" where
  "get_peer_ips cfg w k =
     (if PEER_SERVICE_DNS cfg = [] then ([], k, Inr [''<broadcast>''])
      else
        (case resolve_body cfg w of
           (evs, Inr ips) \<Rightarrow> (evs, k, Inr ips)
         | (evs, Inl (Exception d)) \<Rightarrow>
             (let (out, k') = log w k (''Error resolving peers from '' @ PEER_SERVICE_DNS cfg
                                        @ '': '' @ d)
              in (evs @ out, k', Inr []))
         | (evs, Inl (NonException d)) \<Rightarrow> (evs, k, Inl (NonException d))))"

subsection \<open>receiver (lines 46 to 69)\<close>

text \<open>
  How far a function that contains \<open>while True\<close> has got: it has returned, it has raised,
  or it is still inside its loop when the given environment ends (\<open>Running\<close>). The loop never
  leaves through \<open>Returned\<close>.
\<close>

datatype status = Running | Returned | Raised exn

text \<open>
  The \<open>while True\<close> of lines 62 to 69. The list holds the outcome of each successive call
  of \<open>s.recvfrom(1024)\<close>: a datagram and its source address, or an exception; a call that
  blocks for ever is the end of the list. The decode and the \<open>log\<close> of the message are
  inside the same \<open>try\<close> as the \<open>recvfrom\<close>, so both kinds of failure reach the one handler.
\<close>

fun receiver_loop ::
  "world \<Rightarrow> (exn + bytes \<times> address) list \<Rightarrow> nat \<Rightarrow> event list \<times> status" where
  "receiver_loop w [] k = ([], Running)"
| "receiver_loop w (r # rs) k =
     (case (case r of Inl e \<Rightarrow> Inl e
                    | Inr (data_in, addr) \<Rightarrow>
                        (case decode_utf8 w data_in of Inl e \<Rightarrow> Inl e
                                                     | Inr msg \<Rightarrow> Inr (msg, addr))) of
        Inr (msg, addr) \<Rightarrow>
          (let (out, k') = log w k (''Received from '' @ fst addr @ '':'' @ str_int (snd addr)
                                     @ '' -> '' @ msg);
               (evs, st) = receiver_loop w rs k'
           in (Recvfrom 1024 # out @ evs, st))
      | Inl (Exception d) \<Rightarrow>
          (let (out, k') = log w k (''Error receiving: '' @ d);
               (evs, st) = receiver_loop w rs k'
           in (Recvfrom 1024 # out @ Sleep 1 # evs, st))
      | Inl (NonException d) \<Rightarrow> ([Recvfrom 1024], Raised (NonException d)))"

text \<open>
  The whole function. Creating the socket and setting its options are outside every
  \<open>try\<close>: an exception there leaves the function. Only the \<open>bind\<close> is guarded.
\<close>

definition receiver ::
  "config \<Rightarrow> world \<Rightarrow> (exn + bytes \<times> address) list \<Rightarrow> event list \<times> status" where
  "receiver cfg w recvs =
     (case socket_new w of
        Inl e \<Rightarrow> ([Socket], Raised e)
      | Inr _ \<Rightarrow>
     (case setsockopt w SO_REUSEADDR of
        Inl e \<Rightarrow> ([Socket, Setsockopt SO_REUSEADDR], Raised e)
      | Inr _ \<Rightarrow>
     (case setsockopt w SO_BROADCAST of
        Inl e \<Rightarrow> ([Socket, Setsockopt SO_REUSEADDR, Setsockopt SO_BROADCAST], Raised e)
      | Inr _ \<Rightarrow>
     (let pre = [Socket, Setsockopt SO_REUSEADDR, Setsockopt SO_BROADCAST,
                 Bind (''0.0.0.0'', PORT cfg)]
      in case bind_to w (''0.0.0.0'', PORT cfg) of
           Inl (Exception d) \<Rightarrow> (pre @ fst (log w 0 (''Error binding receiver: '' @ d)), Returned)
         | Inl (NonException d) \<Rightarrow> (pre, Raised (NonException d))
         | Inr _ \<Rightarrow>
            (let (out, k) = log w 0 (''Listening for UDP messages on port '' @ str_int (PORT cfg)
                                      @ ''...'');
                 (evs, st) = receiver_loop w recvs k
             in (pre @ out @ evs, st))))))"

subsection \<open>sender (lines 71 to 95)\<close>

text \<open>
  \<open>time.sleep(secs)\<close> raises ValueError for a negative argument and suspends the thread
  otherwise.
\<close>

definition sleep :: "real \<Rightarrow> event list \<times> (exn + unit)" where
  "sleep secs =
     (if secs < 0 then ([], Inl (Exception ''sleep length must be non-negative''))
      else ([Sleep secs], Inr ()))"

text \<open>
  The \<open>for ip in peers\<close> of lines 88 to 93, for the message text built on line 86. The
  encoding is evaluated anew in every iteration; the \<open>sendto\<close> is the only call that can
  raise.
\<close>

fun send_all ::
  "config \<Rightarrow> world \<Rightarrow> string \<Rightarrow> string list \<Rightarrow> nat \<Rightarrow> event list \<times> nat \<times> (exn + unit)" where
  "send_all cfg w msg_content [] k = ([], k, Inr ())"
| "send_all cfg w msg_content (ip # peers) k =
     (let payload = utf8_encode msg_content; dest = (ip, PORT cfg) in
      case sendto w payload dest of
        Inr n \<Rightarrow>
          (let (evs, k', r) = send_all cfg w msg_content peers k
           in (Sendto payload dest # evs, k', r))
      | Inl (Exception d) \<Rightarrow>
          (let (out, k1) = log w k (''Error sending to '' @ ip @ '': '' @ d);
               (evs, k', r) = send_all cfg w msg_content peers k1
           in (Sendto payload dest # out @ evs, k', r))
      | Inl (NonException d) \<Rightarrow> ([Sendto payload dest], k, Inl (NonException d)))"

text \<open>Line 86.\<close>

definition msg_content_at :: "config \<Rightarrow> datetime \<Rightarrow> string" where
  "msg_content_at cfg t = ''hola desde '' @ MESSAGE_ID cfg @ '' sent at '' @ timestamp t"

text \<open>
  One pass through the body of the \<open>while True\<close> (lines 79 to 95) in the environment
  \<open>w\<close>, whose clock is counted from 0 in each pass. \<open>Inr ()\<close>: the pass has reached
  the end of its \<open>time.sleep\<close>; \<open>Inl e\<close>: \<open>e\<close> has left the loop.
\<close>

definition sender_cycle :: "config \<Rightarrow> world \<Rightarrow> event list \<times> (exn + unit)" where
  "sender_cycle cfg w =
     (case get_peer_ips cfg w 0 of
        (ev0, k0, Inl e) \<Rightarrow> (ev0, Inl e)
      | (ev0, k0, Inr peers) \<Rightarrow>
          (let (ev1, k1) = (if peers = [] then log w k0 ''No peers found.'' else ([], k0));
               msg_content = msg_content_at cfg (now w k1);
               (ev2, k2, r) = send_all cfg w msg_content peers (Suc k1)
           in case r of
                Inl e \<Rightarrow> (ev0 @ ev1 @ ev2, Inl e)
              | Inr _ \<Rightarrow>
                  (let (ev3, r3) = sleep (PERIOD cfg) in (ev0 @ ev1 @ ev2 @ ev3, r3))))"

text \<open>The loop: one environment per pass.\<close>

fun sender_loop :: "config \<Rightarrow> world list \<Rightarrow> event list \<times> status" where
  "sender_loop cfg [] = ([], Running)"
| "sender_loop cfg (w # ws) =
     (case sender_cycle cfg w of
        (evs, Inl e) \<Rightarrow> (evs, Raised e)
      | (evs, Inr _) \<Rightarrow> (let (evs', st) = sender_loop cfg ws in (evs @ evs', st)))"

text \<open>The whole function: \<open>w0\<close> is the environment of lines 73 to 76.\<close>

definition sender :: "config \<Rightarrow> world \<Rightarrow> world list \<Rightarrow> event list \<times> status" where
  "sender cfg w0 ws =
     (case socket_new w0 of
        Inl e \<Rightarrow> ([Socket], Raised e)
      | Inr _ \<Rightarrow>
     (case setsockopt w0 SO_BROADCAST of
        Inl e \<Rightarrow> ([Socket, Setsockopt SO_BROADCAST], Raised e)
      | Inr _ \<Rightarrow>
     (let out = fst (log w0 0 (''Starting sender: '' @ [CHR 0x27] @ MESSAGE_ID cfg @ [CHR 0x27]
                               @ '' to port '' @ str_int (PORT cfg) @ '' every ''
                               @ str_float w0 (PERIOD cfg) @ ''s''));
          (evs, st) = sender_loop cfg ws
      in ([Socket, Setsockopt SO_BROADCAST] @ out @ evs, st))))"

subsection \<open>The process (lines 97 to 103)\<close>

text \<open>
  The receiver runs in a daemon thread, the sender in the main thread. They share no
  mutable state, so each has its own trace; the process lives exactly as long as the main
  thread. The pair is (receiver thread, main thread).
\<close>

definition main ::
  "config \<Rightarrow> world \<Rightarrow> (exn + bytes \<times> address) list \<Rightarrow> world \<Rightarrow> world list \<Rightarrow>
   (event list \<times> status) \<times> (event list \<times> status)" where
  "main cfg wr recvs w0 ws = (receiver cfg wr recvs, sender cfg w0 ws)"

subsection \<open>Notions used in the statements\<close>

text \<open>The transmission attempts of a trace, in order: payload and destination.\<close>

fun transmissions :: "event list \<Rightarrow> (bytes \<times> address) list" where
  "transmissions [] = []"
| "transmissions (Sendto payload dest # evs) = (payload, dest) # transmissions evs"
| "transmissions (e # evs) = transmissions evs"

text \<open>
  The timestamp as the specification words it, \<open>HH:MM:SS.mmm\<close>: hours, minutes and seconds
  on two digits, then the milliseconds (the microseconds divided by 1000, rounded down) on
  three.
\<close>

definition spec_timestamp :: "datetime \<Rightarrow> string" where
  "spec_timestamp t =
     zfill 2 (str_nat (hour t)) @ '':'' @ zfill 2 (str_nat (minute t)) @ '':'' @
     zfill 2 (str_nat (second t)) @ ''.'' @ zfill 3 (str_nat (microsecond t div 1000))"

subsection \<open>Example environments\<close>

text \<open>
  A node \<open>node-a\<close> at 10.0.0.1 whose peer name resolves to three hosts, itself among
  them, each listed once per socket type; the host 10.0.0.2 is unreachable.
\<close>

definition example_config :: config where
  "example_config =
     \<lparr>MESSAGE_ID = ''node-a'', PERIOD = 2, PORT = 37020,
      PEER_SERVICE_DNS = ''peers.default.svc''\<rparr>"

definition example_results :: "addrinfo list" where
  "example_results =
     [(2, 1, 6, [], (''10.0.0.1'', 0)), (2, 2, 17, [], (''10.0.0.1'', 0)),
      (2, 1, 6, [], (''10.0.0.2'', 0)), (2, 2, 17, [], (''10.0.0.2'', 0)),
      (2, 1, 6, [], (''10.0.0.3'', 0)), (2, 2, 17, [], (''10.0.0.3'', 0))]"

definition example_world :: world where
  "example_world =
     \<lparr>now = (\<lambda>k. \<lparr>hour = 9, minute = 5, second = 7, microsecond = 123456 + 1000 * k\<rparr>),
      gethostname = Inr ''node-a'',
      gethostbyname = (\<lambda>host. Inr ''10.0.0.1''),
      getaddrinfo = (\<lambda>host. Inr example_results),
      socket_new = Inr (),
      setsockopt = (\<lambda>opt. Inr ()),
      bind_to = (\<lambda>addr. Inr ()),
      sendto = (\<lambda>payload dest.
        if fst dest = ''10.0.0.2'' then Inl (Exception ''[Errno 101] Network is unreachable'')
        else Inr (length payload)),
      decoded_text = (\<lambda>payload. if payload = [104, 111, 108, 97] then ''hola'' else ''...''),
      decode_error = (\<lambda>payload. ''invalid start byte''),
      str_float = (\<lambda>x. ''2.0'')\<rparr>"

text \<open>The same node when the peer name cannot be resolved.\<close>

definition unresolvable_world :: world where
  "unresolvable_world =
     example_world\<lparr>getaddrinfo :=
       (\<lambda>host. Inl (Exception ''[Errno -2] Name or service not known''))\<rparr>"

text \<open>The same node when the peer name resolves to the node alone.\<close>

definition lonely_world :: world where
  "lonely_world =
     example_world\<lparr>getaddrinfo :=
       (\<lambda>host. Inr [(2, 1, 6, [], (''10.0.0.1'', 0)), (2, 2, 17, [], (''10.0.0.1'', 0))])\<rparr>"

text \<open>The same node when the port is taken.\<close>

definition port_taken_world :: world where
  "port_taken_world =
     example_world\<lparr>bind_to := (\<lambda>addr. Inl (Exception ''[Errno 98] Address already in use''))\<rparr>"

section \<open>Properties\<close>

subsection \<open>Auxiliary facts: the set of addresses\<close>

lemma set_set_add: "set (set_add ip ips) = insert ip (set ips)"
  by (auto simp: set_add_def)

lemma distinct_set_add: "distinct ips \<Longrightarrow> distinct (set_add ip ips)"
  by (simp add: set_add_def)

lemma set_collect_ips:
  "set (collect_ips my_ip results ips) = set ips \<union> (ip_of ` set results - {my_ip})"
  by (induction results arbitrary: ips) (auto simp: Let_def set_set_add)

lemma distinct_collect_ips:
  "distinct ips \<Longrightarrow> distinct (collect_ips my_ip results ips)"
  by (induction results arbitrary: ips) (auto simp: Let_def distinct_set_add)


subsection \<open>Auxiliary facts: formatting\<close>






lemma div_1000: "(n::nat) div 10 div 10 div 10 = n div 1000"
proof -
  have "n div 1000 = n div (10 * (10 * 10))" by simp
  also have "\<dots> = n div 10 div (10 * 10)" by (rule div_mult2_eq)
  also have "\<dots> = n div 10 div 10 div 10" by (rule div_mult2_eq)
  finally show ?thesis by simp
qed

lemma zfill_str_nat_Suc:
  "0 < k \<Longrightarrow> zfill (Suc k) (str_nat n) = zfill k (str_nat (n div 10)) @ [digit (n mod 10)]"
proof (cases "n < 10")
  case True
  assume "0 < k"
  have z: "str_nat 0 = [digit 0]" by (subst str_nat.simps) simp
  from True have "str_nat n = [digit n]" by (subst str_nat.simps) simp
  moreover have "digit 0 = CHR ''0''" by (simp add: digit_def)
  moreover have "replicate (k - Suc 0) CHR ''0'' @ [CHR ''0''] = replicate k CHR ''0''"
    using \<open>0 < k\<close> by (cases k) (simp_all add: replicate_append_same)
  ultimately show ?thesis using True z by (simp add: zfill_def)
next
  case False
  assume "0 < k"
  from False have "str_nat n = str_nat (n div 10) @ [digit (n mod 10)]"
    by (subst str_nat.simps) simp
  then show ?thesis by (simp add: zfill_def)
qed

lemma zfill6_split:
  "\<exists>low. length low = 3 \<and> zfill 6 (str_nat n) = zfill 3 (str_nat (n div 1000)) @ low"
proof -
  have 1: "zfill (Suc 5) (str_nat n) = zfill 5 (str_nat (n div 10)) @ [digit (n mod 10)]"
    by (rule zfill_str_nat_Suc) simp
  have 2: "zfill (Suc 4) (str_nat (n div 10)) =
      zfill 4 (str_nat (n div 10 div 10)) @ [digit (n div 10 mod 10)]"
    by (rule zfill_str_nat_Suc) simp
  have 3: "zfill (Suc 3) (str_nat (n div 10 div 10)) =
      zfill 3 (str_nat (n div 10 div 10 div 10)) @ [digit (n div 10 div 10 mod 10)]"
    by (rule zfill_str_nat_Suc) simp
  have s: "Suc 5 = 6" "Suc 4 = 5" "Suc 3 = 4" by simp_all
  have "zfill 6 (str_nat n) = zfill 3 (str_nat (n div 1000)) @
     [digit (n div 10 div 10 mod 10), digit (n div 10 mod 10), digit (n mod 10)]"
    using 1 2 3 unfolding s div_1000 by simp
  then show ?thesis by auto
qed

lemma timestamp_eq_spec: "timestamp t = spec_timestamp t"
proof -
  obtain low where low: "length low = 3"
    and z: "zfill 6 (str_nat (microsecond t)) = zfill 3 (str_nat (microsecond t div 1000)) @ low"
    using zfill6_split [of "microsecond t"] by blast
  have "strftime_HMSf t = spec_timestamp t @ low"
    by (simp add: strftime_HMSf_def spec_timestamp_def z)
  then show ?thesis
    by (simp add: timestamp_def Let_def low)
qed

lemma length_zfill_str_nat:
  "0 < k \<Longrightarrow> n < 10 ^ k \<Longrightarrow> length (zfill k (str_nat n)) = k"
proof (induction k arbitrary: n)
  case 0
  then show ?case by simp
next
  case (Suc k)
  show ?case
  proof (cases "k = 0")
    case True
    with Suc.prems have "n < 10" by simp
    then have "str_nat n = [digit n]" by (subst str_nat.simps) simp
    with True show ?thesis by (simp add: zfill_def)
  next
    case False
    then have k: "0 < k" by simp
    from Suc.prems have "n div 10 < 10 ^ k" by (simp add: less_mult_imp_div_less)
    with k have "length (zfill k (str_nat (n div 10))) = k" by (rule Suc.IH)
    then show ?thesis by (simp add: zfill_str_nat_Suc [OF k])
  qed
qed

lemma length_spec_timestamp:
  assumes "hour t < 24" and "minute t < 60" and "second t < 60" and "microsecond t < 1000000"
  shows "length (spec_timestamp t) = 12"
proof -
  have "length (zfill 2 (str_nat (hour t))) = 2"
    using assms(1) by (intro length_zfill_str_nat) simp_all
  moreover have "length (zfill 2 (str_nat (minute t))) = 2"
    using assms(2) by (intro length_zfill_str_nat) simp_all
  moreover have "length (zfill 2 (str_nat (second t))) = 2"
    using assms(3) by (intro length_zfill_str_nat) simp_all
  moreover have "length (zfill 3 (str_nat (microsecond t div 1000))) = 3"
    using assms(4) by (intro length_zfill_str_nat) simp_all
  ultimately show ?thesis by (simp add: spec_timestamp_def)
qed




subsection \<open>Auxiliary facts: traces\<close>

lemma transmissions_append: "transmissions (xs @ ys) = transmissions xs @ transmissions ys"
  by (induction xs rule: transmissions.induct) simp_all

lemma resolve_body_ok:
  assumes "gethostname w = Inr host" and "gethostbyname w host = Inr my_ip"
    and "getaddrinfo w (PEER_SERVICE_DNS cfg) = Inr results"
  shows "resolve_body cfg w =
    ([Gethostname, Gethostbyname host, Getaddrinfo (PEER_SERVICE_DNS cfg)],
     Inr (collect_ips my_ip results []))"
  using assms by (simp add: resolve_body_def)

lemma resolve_body_cases:
  "fst (resolve_body cfg w) \<in>
     {[Gethostname], [Gethostname, Gethostbyname (projr (gethostname w))],
      [Gethostname, Gethostbyname (projr (gethostname w)), Getaddrinfo (PEER_SERVICE_DNS cfg)]}"
  by (auto simp: resolve_body_def split: sum.splits)

lemma transmissions_resolve_body: "transmissions (fst (resolve_body cfg w)) = []"
  using resolve_body_cases [of cfg w] by auto

lemma transmissions_get_peer_ips: "transmissions (fst (get_peer_ips cfg w k)) = []"
  using transmissions_resolve_body [of cfg w]
  by (auto simp: get_peer_ips_def log_def transmissions_append split: prod.splits sum.splits exn.splits)

lemma get_peer_ips_clock:
  "get_peer_ips cfg w k = (evs, k', Inr peers) \<Longrightarrow> peers \<noteq> [] \<Longrightarrow> k' = k"
  by (auto simp: get_peer_ips_def log_def split: if_splits prod.splits sum.splits exn.splits)

lemma send_all_transmissions_subset:
  "(payload, dest) \<in> set (transmissions (fst (send_all cfg w m peers k))) \<Longrightarrow>
   payload = utf8_encode m \<and> dest \<in> (\<lambda>ip. (ip, PORT cfg)) ` set peers"
proof (induction peers arbitrary: k)
  case Nil
  then show ?case by simp
next
  case (Cons ip peers)
  then show ?case
    by (auto simp: Let_def log_def case_prod_beta split: sum.splits exn.splits)
qed

lemma send_all_all_attempted:
  assumes "\<forall>ip \<in> set peers. \<forall>d. sendto w (utf8_encode m) (ip, PORT cfg) \<noteq> Inl (NonException d)"
  shows "transmissions (fst (send_all cfg w m peers k)) =
           map (\<lambda>ip. (utf8_encode m, (ip, PORT cfg))) peers \<and>
         snd (snd (send_all cfg w m peers k)) = Inr ()"
  using assms
proof (induction peers arbitrary: k)
  case Nil
  then show ?case by simp
next
  case (Cons ip peers)
  then show ?case
    by (auto simp: Let_def log_def case_prod_beta split: sum.splits exn.splits)
qed

lemma send_all_failure_logged:
  assumes "\<forall>ip \<in> set peers. \<forall>d. sendto w (utf8_encode m) (ip, PORT cfg) \<noteq> Inl (NonException d)"
    and "A \<in> set peers" and "sendto w (utf8_encode m) (A, PORT cfg) = Inl (Exception d)"
  shows "\<exists>j\<ge>k. Stdout (log_line (now w j) (''Error sending to '' @ A @ '': '' @ d))
            \<in> set (fst (send_all cfg w m peers k))"
  using assms
proof (induction peers arbitrary: k)
  case Nil
  then show ?case by simp
next
  case (Cons ip peers)
  show ?case
  proof (cases "ip = A")
    case True
    with Cons.prems(3) show ?thesis
      by (auto simp: Let_def log_def case_prod_beta intro!: exI [of _ k])
  next
    case False
    with Cons.prems have A: "A \<in> set peers" by simp
    from Cons.prems(1) have
      ok: "\<forall>ip \<in> set peers. \<forall>d. sendto w (utf8_encode m) (ip, PORT cfg) \<noteq> Inl (NonException d)"
      by simp
    note IH = Cons.IH [OF ok A Cons.prems(3)]
    from Cons.prems(1) have nn: "\<And>d. sendto w (utf8_encode m) (ip, PORT cfg) \<noteq> Inl (NonException d)"
      by simp
    show ?thesis
    proof (cases "sendto w (utf8_encode m) (ip, PORT cfg)")
      case (Inr n)
      with IH [of k] show ?thesis
        by (auto simp: Let_def case_prod_beta)
    next
      case (Inl e)
      with nn obtain d' where e: "e = Exception d'" by (cases e) auto
      from IH [of "Suc k"] obtain j where "j \<ge> Suc k"
        and "Stdout (log_line (now w j) (''Error sending to '' @ A @ '': '' @ d))
            \<in> set (fst (send_all cfg w m peers (Suc k)))" by blast
      then show ?thesis using Inl e
        by (auto simp: Let_def log_def case_prod_beta intro!: exI [of _ j])
    qed
  qed
qed

lemma transmissions_send_all_clock:
  "transmissions (fst (send_all cfg w m peers k)) = transmissions (fst (send_all cfg w m peers k'))"
proof (induction peers arbitrary: k k')
  case Nil
  then show ?case by simp
next
  case (Cons ip peers)
  show ?case
    using Cons.IH [of k k'] Cons.IH [of "Suc k" "Suc k'"]
    by (auto simp: Let_def log_def case_prod_beta transmissions_append split: sum.splits exn.splits)
qed

lemma transmissions_sleep: "transmissions (fst (sleep secs)) = []"
  by (simp add: sleep_def)

lemma sender_cycle_raise:
  "get_peer_ips cfg w 0 = (ev0, k0, Inl e) \<Longrightarrow> sender_cycle cfg w = (ev0, Inl e)"
  by (simp add: sender_cycle_def)

lemma sender_cycle_no_peers:
  "get_peer_ips cfg w 0 = (ev0, k0, Inr []) \<Longrightarrow>
   sender_cycle cfg w =
     (ev0 @ [Stdout (log_line (now w k0) ''No peers found.'')] @ fst (sleep (PERIOD cfg)),
      snd (sleep (PERIOD cfg)))"
  by (simp add: sender_cycle_def log_def case_prod_beta)

lemma sender_cycle_peers:
  assumes "get_peer_ips cfg w 0 = (ev0, k0, Inr peers)" and "peers \<noteq> []"
  shows "sender_cycle cfg w =
     (case snd (snd (send_all cfg w (msg_content_at cfg (now w 0)) peers (Suc 0))) of
        Inl e \<Rightarrow> (ev0 @ fst (send_all cfg w (msg_content_at cfg (now w 0)) peers (Suc 0)), Inl e)
      | Inr _ \<Rightarrow> (ev0 @ fst (send_all cfg w (msg_content_at cfg (now w 0)) peers (Suc 0))
                    @ fst (sleep (PERIOD cfg)), snd (sleep (PERIOD cfg))))"
proof -
  from assms have "k0 = 0" by (rule get_peer_ips_clock)
  with assms show ?thesis
    by (simp add: sender_cycle_def case_prod_beta Let_def split: sum.splits)
qed

lemma transmissions_sender_cycle:
  assumes "get_peer_ips cfg w 0 = (ev0, k0, Inr peers)"
  shows "transmissions (fst (sender_cycle cfg w)) =
         transmissions (fst (send_all cfg w (msg_content_at cfg (now w 0)) peers 0))"
proof (cases "peers = []")
  case True
  with assms transmissions_get_peer_ips [of cfg w 0] show ?thesis
    by (simp add: sender_cycle_no_peers transmissions_append transmissions_sleep)
next
  case False
  with assms transmissions_get_peer_ips [of cfg w 0]
    transmissions_send_all_clock [of cfg w "msg_content_at cfg (now w 0)" peers "Suc 0"]
  show ?thesis
    by (simp add: sender_cycle_peers transmissions_append transmissions_sleep split: sum.splits)
qed




subsection \<open>Auxiliary facts: the example environments\<close>

lemmas example_defs =
  example_config_def example_world_def example_results_def unresolvable_world_def
  lonely_world_def port_taken_world_def

lemma example_timestamp:
  "timestamp (now example_world 0) = ''09:05:07.123''"
  "timestamp (now example_world (Suc 0)) = ''09:05:07.124''"
  by (simp_all add: example_defs timestamp_def strftime_HMSf_def zfill_def str_nat.simps digit_def)

lemma example_peers:
  "get_peer_ips example_config example_world 0 =
     ([Gethostname, Gethostbyname ''node-a'', Getaddrinfo ''peers.default.svc''], 0,
      Inr [''10.0.0.2'', ''10.0.0.3''])"
  by (simp add: example_defs get_peer_ips_def resolve_body_def ip_of_def set_add_def)


lemma example_cycle:
  "sender_cycle example_config example_world =
     ([Gethostname, Gethostbyname ''node-a'', Getaddrinfo ''peers.default.svc'',
       Sendto (utf8_encode ''hola desde node-a sent at 09:05:07.123'') (''10.0.0.2'', 37020),
       Stdout (''[09:05:07.124] Error sending to 10.0.0.2: '' @
               ''[Errno 101] Network is unreachable''),
       Sendto (utf8_encode ''hola desde node-a sent at 09:05:07.123'') (''10.0.0.3'', 37020),
       Sleep 2],
      Inr ())"
proof -
  have m: "msg_content_at example_config (now example_world 0) =
      ''hola desde node-a sent at 09:05:07.123''"
    by (simp add: msg_content_at_def example_timestamp) (simp add: example_config_def)
  have s: "\<And>p ip. sendto example_world p (ip, 37020) =
      (if ip = ''10.0.0.2'' then Inl (Exception ''[Errno 101] Network is unreachable'')
       else Inr (length p))"
    by (simp add: example_world_def)
  have port: "PORT example_config = 37020" and period: "PERIOD example_config = 2"
    by (simp_all add: example_config_def)
  show ?thesis
    by (simp add: sender_cycle_def example_peers m s port period sleep_def log_def log_line_def
        example_timestamp)
qed

subsection \<open>Resolution\<close>

text \<open>
  C1: when the peer-group identifier is configured and both the node's own address and the
  identifier resolve, get_peer_ips returns, without raising and without printing anything,
  exactly the resolved addresses other than the node's own, each once: N - 1 of them when
  the own address is among the N distinct resolved addresses, N otherwise. The own address
  is never in the result, and the result is empty when every resolved address is the own
  address.
\<close>

theorem get_peer_ips_excludes_local:
  assumes "PEER_SERVICE_DNS cfg \<noteq> []"
    and "gethostname w = Inr host" and "gethostbyname w host = Inr my_ip"
    and "getaddrinfo w (PEER_SERVICE_DNS cfg) = Inr results"
  shows "\<exists>peers.
      get_peer_ips cfg w k =
        ([Gethostname, Gethostbyname host, Getaddrinfo (PEER_SERVICE_DNS cfg)], k, Inr peers) \<and>
      set peers = ip_of ` set results - {my_ip} \<and>
      distinct peers \<and>
      length peers = (if my_ip \<in> ip_of ` set results then card (ip_of ` set results) - 1
                      else card (ip_of ` set results)) \<and>
      my_ip \<notin> set peers \<and>
      (ip_of ` set results \<subseteq> {my_ip} \<longrightarrow> peers = [])"
proof -
  let ?peers = "collect_ips my_ip results []"
  have run: "get_peer_ips cfg w k =
      ([Gethostname, Gethostbyname host, Getaddrinfo (PEER_SERVICE_DNS cfg)], k, Inr ?peers)"
    using assms(1) by (simp add: get_peer_ips_def resolve_body_ok [OF assms(2-4)])
  have s: "set ?peers = ip_of ` set results - {my_ip}"
    by (simp add: set_collect_ips)
  have d: "distinct ?peers"
    by (rule distinct_collect_ips) simp
  have "length ?peers = card (set ?peers)"
    using d by (simp add: distinct_card)
  also have "\<dots> = card (ip_of ` set results - {my_ip})" by (simp only: s)
  also have "\<dots> = (if my_ip \<in> ip_of ` set results then card (ip_of ` set results) - 1
                      else card (ip_of ` set results))"
    by simp
  finally have l: "length ?peers = (if my_ip \<in> ip_of ` set results
      then card (ip_of ` set results) - 1 else card (ip_of ` set results))" .
  have e: "ip_of ` set results \<subseteq> {my_ip} \<longrightarrow> ?peers = []"
  proof
    assume "ip_of ` set results \<subseteq> {my_ip}"
    then have "set ?peers = {}" unfolding s by blast
    then show "?peers = []" by simp
  qed
  from run s d l e show ?thesis by blast
qed

theorem get_peer_ips_excludes_local_witness:
  "PEER_SERVICE_DNS example_config \<noteq> [] \<and>
   gethostname example_world = Inr ''node-a'' \<and>
   gethostbyname example_world ''node-a'' = Inr ''10.0.0.1'' \<and>
   getaddrinfo example_world (PEER_SERVICE_DNS example_config) = Inr example_results \<and>
   card (ip_of ` set example_results) = 3 \<and>
   (\<exists>peers.
      get_peer_ips example_config example_world 0 =
        ([Gethostname, Gethostbyname ''node-a'', Getaddrinfo (PEER_SERVICE_DNS example_config)],
         0, Inr peers) \<and>
      set peers = ip_of ` set example_results - {''10.0.0.1''} \<and>
      distinct peers \<and>
      length peers = (if ''10.0.0.1'' \<in> ip_of ` set example_results
                      then card (ip_of ` set example_results) - 1
                      else card (ip_of ` set example_results)) \<and>
      ''10.0.0.1'' \<notin> set peers \<and>
      (ip_of ` set example_results \<subseteq> {''10.0.0.1''} \<longrightarrow> peers = []))"
proof -
  have h1: "PEER_SERVICE_DNS example_config \<noteq> []" by (simp add: example_config_def)
  have h2: "gethostname example_world = Inr ''node-a''" by (simp add: example_world_def)
  have h3: "gethostbyname example_world ''node-a'' = Inr ''10.0.0.1''"
    by (simp add: example_world_def)
  have h4: "getaddrinfo example_world (PEER_SERVICE_DNS example_config) = Inr example_results"
    by (simp add: example_world_def)
  have n: "card (ip_of ` set example_results) = 3"
    by (simp add: example_results_def ip_of_def)
  from h1 h2 h3 h4 n get_peer_ips_excludes_local [OF h1 h2 h3 h4, of 0]
  show ?thesis by (intro conjI)
qed



text \<open>
  C3: whenever the peer-group identifier is unset (the empty string), get_peer_ips returns
  the broadcast sentinel, whatever the environment: its trace is empty, so it makes no
  name lookup, and neither the result nor the clock count depends on the world.
\<close>

theorem get_peer_ips_unset_is_broadcast:
  "get_peer_ips (cfg\<lparr>PEER_SERVICE_DNS := []\<rparr>) w k = ([], k, Inr [''<broadcast>''])"
  by (simp add: get_peer_ips_def)

subsection \<open>Sending\<close>

text \<open>
  C4: every datagram that a pass of the sender hands to sendto is the UTF-8 encoding of
  the text "hola desde <identity> sent at <HH:MM:SS.mmm>", where the timestamp is the
  first clock value read in that pass, cut to milliseconds. The text does not depend on
  the destination, so all destinations of one pass get the same bytes. For a clock value
  within the ranges of a time of day the timestamp has exactly twelve characters.
\<close>

theorem sender_cycle_payload:
  assumes "(payload, dest) \<in> set (transmissions (fst (sender_cycle cfg w)))"
  shows "payload = utf8_encode (''hola desde '' @ MESSAGE_ID cfg @ '' sent at ''
                                 @ spec_timestamp (now w 0)) \<and>
         (hour (now w 0) < 24 \<and> minute (now w 0) < 60 \<and> second (now w 0) < 60 \<and>
          microsecond (now w 0) < 1000000 \<longrightarrow> length (spec_timestamp (now w 0)) = 12)"
proof -
  obtain ev0 k0 r where g: "get_peer_ips cfg w 0 = (ev0, k0, r)"
    by (cases "get_peer_ips cfg w 0") auto
  have "payload = utf8_encode (''hola desde '' @ MESSAGE_ID cfg @ '' sent at ''
                                 @ spec_timestamp (now w 0))"
  proof (cases r)
    case (Inl e)
    with g have "sender_cycle cfg w = (ev0, Inl e)" by (simp add: sender_cycle_raise)
    with assms g transmissions_get_peer_ips [of cfg w 0] show ?thesis by simp
  next
    case (Inr peers)
    with g assms have
      "(payload, dest) \<in>
         set (transmissions (fst (send_all cfg w (msg_content_at cfg (now w 0)) peers 0)))"
      by (simp add: transmissions_sender_cycle)
    then have "payload = utf8_encode (msg_content_at cfg (now w 0))"
      by (rule send_all_transmissions_subset [THEN conjunct1])
    then show ?thesis by (simp add: msg_content_at_def timestamp_eq_spec)
  qed
  then show ?thesis by (simp add: length_spec_timestamp)
qed

theorem sender_cycle_payload_witness:
  "(utf8_encode ''hola desde node-a sent at 09:05:07.123'', (''10.0.0.3'', 37020))
     \<in> set (transmissions (fst (sender_cycle example_config example_world))) \<and>
   utf8_encode ''hola desde node-a sent at 09:05:07.123'' =
     utf8_encode (''hola desde '' @ MESSAGE_ID example_config @ '' sent at ''
                  @ spec_timestamp (now example_world 0)) \<and>
   (hour (now example_world 0) < 24 \<and> minute (now example_world 0) < 60 \<and>
    second (now example_world 0) < 60 \<and> microsecond (now example_world 0) < 1000000) \<and>
   length (spec_timestamp (now example_world 0)) = 12"
proof -
  have h: "(utf8_encode ''hola desde node-a sent at 09:05:07.123'', (''10.0.0.3'', 37020))
     \<in> set (transmissions (fst (sender_cycle example_config example_world)))"
    by (simp add: example_cycle)
  have r: "hour (now example_world 0) < 24 \<and> minute (now example_world 0) < 60 \<and>
    second (now example_world 0) < 60 \<and> microsecond (now example_world 0) < 1000000"
    by (simp add: example_world_def)
  from h r sender_cycle_payload [OF h] show ?thesis by blast
qed

text \<open>
  C5: in a pass whose peers include A and B, if the sendto to A raises an Exception, the
  exception is caught and a line with A and the detail of the exception is printed, and
  the datagram is still handed to sendto for B. More generally, as long as no sendto of
  the pass raises something that is not an Exception, every peer is attempted exactly once,
  with the same payload, and the pass goes on to its sleep.
\<close>

theorem sender_cycle_failures_isolated:
  assumes "get_peer_ips cfg w 0 = (ev0, k0, Inr peers)"
    and "payload = utf8_encode (msg_content_at cfg (now w 0))"
    and "\<forall>ip \<in> set peers. \<forall>d'. sendto w payload (ip, PORT cfg) \<noteq> Inl (NonException d')"
    and "A \<in> set peers" and "B \<in> set peers"
    and "sendto w payload (A, PORT cfg) = Inl (Exception d)"
  shows "(\<exists>j. Stdout (log_line (now w j) (''Error sending to '' @ A @ '': '' @ d))
              \<in> set (fst (sender_cycle cfg w))) \<and>
         (payload, (B, PORT cfg)) \<in> set (transmissions (fst (sender_cycle cfg w))) \<and>
         transmissions (fst (sender_cycle cfg w)) = map (\<lambda>ip. (payload, (ip, PORT cfg))) peers \<and>
         snd (sender_cycle cfg w) = snd (sleep (PERIOD cfg))"
proof -
  let ?m = "msg_content_at cfg (now w 0)"
  from assms(4) have ne: "peers \<noteq> []" by auto
  have ok: "\<forall>ip \<in> set peers. \<forall>d'. sendto w (utf8_encode ?m) (ip, PORT cfg) \<noteq> Inl (NonException d')"
    using assms(2,3) by simp
  have fail: "sendto w (utf8_encode ?m) (A, PORT cfg) = Inl (Exception d)"
    using assms(2,6) by simp
  note all = send_all_all_attempted [OF ok]
  have cyc: "sender_cycle cfg w =
      (ev0 @ fst (send_all cfg w ?m peers (Suc 0)) @ fst (sleep (PERIOD cfg)),
       snd (sleep (PERIOD cfg)))"
    using all [of "Suc 0"] by (simp add: sender_cycle_peers [OF assms(1) ne])
  obtain j where "Stdout (log_line (now w j) (''Error sending to '' @ A @ '': '' @ d))
      \<in> set (fst (send_all cfg w ?m peers (Suc 0)))"
    using send_all_failure_logged [OF ok assms(4) fail, of "Suc 0"] by blast
  then have 1: "\<exists>j. Stdout (log_line (now w j) (''Error sending to '' @ A @ '': '' @ d))
              \<in> set (fst (sender_cycle cfg w))"
    unfolding cyc by auto
  have 3: "transmissions (fst (sender_cycle cfg w)) = map (\<lambda>ip. (payload, (ip, PORT cfg))) peers"
    using all [of 0] assms(2) by (simp add: transmissions_sender_cycle [OF assms(1)])
  have 2: "(payload, (B, PORT cfg)) \<in> set (transmissions (fst (sender_cycle cfg w)))"
    unfolding 3 using assms(5) by auto
  from 1 2 3 cyc show ?thesis by simp
qed

theorem sender_cycle_failures_isolated_witness:
  "get_peer_ips example_config example_world 0 =
     ([Gethostname, Gethostbyname ''node-a'', Getaddrinfo ''peers.default.svc''], 0,
      Inr [''10.0.0.2'', ''10.0.0.3'']) \<and>
   (\<forall>d'. sendto example_world
           (utf8_encode (msg_content_at example_config (now example_world 0)))
           (''10.0.0.2'', PORT example_config) \<noteq> Inl (NonException d')) \<and>
   (\<forall>d'. sendto example_world
           (utf8_encode (msg_content_at example_config (now example_world 0)))
           (''10.0.0.3'', PORT example_config) \<noteq> Inl (NonException d')) \<and>
   sendto example_world (utf8_encode (msg_content_at example_config (now example_world 0)))
     (''10.0.0.2'', PORT example_config) = Inl (Exception ''[Errno 101] Network is unreachable'') \<and>
   (\<exists>j. Stdout (log_line (now example_world j)
                 (''Error sending to '' @ ''10.0.0.2'' @ '': '' @
                  ''[Errno 101] Network is unreachable''))
          \<in> set (fst (sender_cycle example_config example_world))) \<and>
   (utf8_encode (msg_content_at example_config (now example_world 0)),
    (''10.0.0.3'', PORT example_config))
     \<in> set (transmissions (fst (sender_cycle example_config example_world))) \<and>
   transmissions (fst (sender_cycle example_config example_world)) =
     map (\<lambda>ip. (utf8_encode (msg_content_at example_config (now example_world 0)),
                 (ip, PORT example_config))) [''10.0.0.2'', ''10.0.0.3''] \<and>
   snd (sender_cycle example_config example_world) = snd (sleep (PERIOD example_config))"
proof -
  let ?p = "utf8_encode (msg_content_at example_config (now example_world 0))"
  have h3: "\<forall>ip \<in> set [''10.0.0.2'', ''10.0.0.3'']. \<forall>d'.
      sendto example_world ?p (ip, PORT example_config) \<noteq> Inl (NonException d')"
    by (simp add: example_world_def)
  have h4: "''10.0.0.2'' \<in> set [''10.0.0.2'', ''10.0.0.3'']" by simp
  have h5: "''10.0.0.3'' \<in> set [''10.0.0.2'', ''10.0.0.3'']" by simp
  have h6: "sendto example_world ?p (''10.0.0.2'', PORT example_config) =
      Inl (Exception ''[Errno 101] Network is unreachable'')"
    by (simp add: example_world_def)
  from h3 have h3a: "\<forall>d'. sendto example_world ?p (''10.0.0.2'', PORT example_config) \<noteq>
      Inl (NonException d')"
    and h3b: "\<forall>d'. sendto example_world ?p (''10.0.0.3'', PORT example_config) \<noteq>
      Inl (NonException d')"
    by simp_all
  from example_peers h3a h3b h6
    sender_cycle_failures_isolated [OF example_peers refl h3 h4 h5 h6]
  show ?thesis by (intro conjI) blast+
qed




subsection \<open>Receiving\<close>

text \<open>
  C7: if the bind of the receiver's socket raises an Exception, the receiver prints the
  failure and returns: it does not raise and never calls recvfrom. The main thread is
  not affected: it runs the sender as it would otherwise.
\<close>

theorem receiver_bind_failure_returns:
  assumes "socket_new wr = Inr ()" and "setsockopt wr SO_REUSEADDR = Inr ()"
    and "setsockopt wr SO_BROADCAST = Inr ()"
    and "bind_to wr (''0.0.0.0'', PORT cfg) = Inl (Exception d)"
  shows "main cfg wr recvs w0 ws =
    (([Socket, Setsockopt SO_REUSEADDR, Setsockopt SO_BROADCAST, Bind (''0.0.0.0'', PORT cfg),
       Stdout (log_line (now wr 0) (''Error binding receiver: '' @ d))], Returned),
     sender cfg w0 ws)"
  using assms by (simp add: main_def receiver_def log_def)

theorem receiver_bind_failure_returns_witness:
  "socket_new port_taken_world = Inr () \<and>
   setsockopt port_taken_world SO_REUSEADDR = Inr () \<and>
   setsockopt port_taken_world SO_BROADCAST = Inr () \<and>
   bind_to port_taken_world (''0.0.0.0'', PORT example_config) =
     Inl (Exception ''[Errno 98] Address already in use'') \<and>
   main example_config port_taken_world [Inr ([104, 111, 108, 97], (''10.0.0.3'', 37020))]
        example_world [example_world] =
     (([Socket, Setsockopt SO_REUSEADDR, Setsockopt SO_BROADCAST,
        Bind (''0.0.0.0'', PORT example_config),
        Stdout (log_line (now port_taken_world 0)
                  (''Error binding receiver: '' @ ''[Errno 98] Address already in use''))],
       Returned),
      sender example_config example_world [example_world])"
proof -
  have h1: "socket_new port_taken_world = Inr ()" by (simp add: example_defs)
  have h2: "setsockopt port_taken_world SO_REUSEADDR = Inr ()" by (simp add: example_defs)
  have h3: "setsockopt port_taken_world SO_BROADCAST = Inr ()" by (simp add: example_defs)
  have h4: "bind_to port_taken_world (''0.0.0.0'', PORT example_config) =
      Inl (Exception ''[Errno 98] Address already in use'')"
    by (simp add: example_defs)
  from h1 h2 h3 h4 receiver_bind_failure_returns [OF h1 h2 h3 h4]
  show ?thesis by (intro conjI)
qed

text \<open>
  C8: when a received payload is not well-formed UTF-8, the receive loop prints the
  failure, prints no "Received from" line for that datagram, does not raise, and goes on
  with the next recvfrom; a well-formed datagram that comes next is reported.
\<close>

theorem receiver_loop_drops_malformed:
  assumes "\<not> valid_utf8 data_in"
  shows "receiver_loop w (Inr (data_in, addr) # rs) k =
           ([Recvfrom 1024,
             Stdout (log_line (now w k) (''Error receiving: '' @ decode_error w data_in)),
             Sleep 1] @ fst (receiver_loop w rs (Suc k)),
            snd (receiver_loop w rs (Suc k))) \<and>
         (valid_utf8 data_next \<longrightarrow>
            Stdout (log_line (now w (Suc k))
                      (''Received from '' @ fst addr_next @ '':'' @ str_int (snd addr_next)
                         @ '' -> '' @ decoded_text w data_next))
              \<in> set (fst (receiver_loop w (Inr (data_in, addr) # Inr (data_next, addr_next) # rs) k)))"
  using assms by (simp add: decode_utf8_def log_def case_prod_beta)

theorem receiver_loop_drops_malformed_witness:
  "\<not> valid_utf8 [0xFF, 0x68] \<and> valid_utf8 [104, 111, 108, 97] \<and>
   receiver_loop example_world
      [Inr ([0xFF, 0x68], (''10.0.0.2'', 37020)), Inr ([104, 111, 108, 97], (''10.0.0.3'', 37020))]
      (Suc 0) =
     ([Recvfrom 1024, Stdout ''[09:05:07.124] Error receiving: invalid start byte'', Sleep 1,
       Recvfrom 1024, Stdout ''[09:05:07.125] Received from 10.0.0.3:37020 -> hola''],
      Running) \<and>
   Stdout (log_line (now example_world (Suc (Suc 0)))
             (''Received from '' @ fst (''10.0.0.3'', 37020 :: int) @ '':'' @
              str_int (snd (''10.0.0.3'', 37020 :: int)) @ '' -> '' @
              decoded_text example_world [104, 111, 108, 97]))
     \<in> set (fst (receiver_loop example_world
          (Inr ([0xFF, 0x68], (''10.0.0.2'', 37020)) #
           Inr ([104, 111, 108, 97], (''10.0.0.3'', 37020)) # []) (Suc 0)))"
proof -
  have h1: "\<not> valid_utf8 [0xFF, 0x68]" by simp
  have h2: "valid_utf8 [104, 111, 108, 97]" by simp
  have ts: "timestamp (now example_world (Suc (Suc 0))) = ''09:05:07.125''"
    by (simp add: example_defs timestamp_def strftime_HMSf_def zfill_def str_nat.simps digit_def)
  have run: "receiver_loop example_world
      [Inr ([0xFF, 0x68], (''10.0.0.2'', 37020)), Inr ([104, 111, 108, 97], (''10.0.0.3'', 37020))]
      (Suc 0) =
     ([Recvfrom 1024, Stdout ''[09:05:07.124] Error receiving: invalid start byte'', Sleep 1,
       Recvfrom 1024, Stdout ''[09:05:07.125] Received from 10.0.0.3:37020 -> hola''],
      Running)"
    by (simp add: decode_utf8_def log_def log_line_def example_timestamp ts str_int_def
        str_nat.simps digit_def)
       (simp add: example_world_def)
  from h1 h2 run
    receiver_loop_drops_malformed [OF h1, of example_world "(''10.0.0.2'', 37020)" "[]" "Suc 0"
      "[104, 111, 108, 97]" "(''10.0.0.3'', 37020)"]
  show ?thesis by (intro conjI) blast+
qed

text \<open>
  C10: in the receive loop a payload that is not well-formed UTF-8 is handled by the same
  handler as a failed recvfrom: the loop behaves exactly as if the recvfrom itself had
  raised the decoding error. It prints "Error receiving: ..." and sleeps one second before
  the next recvfrom.
\<close>

theorem receiver_loop_decode_failure_as_receive_failure:
  assumes "\<not> valid_utf8 data_in"
  shows "receiver_loop w (Inr (data_in, addr) # rs) k =
           receiver_loop w (Inl (Exception (decode_error w data_in)) # rs) k \<and>
         take 3 (fst (receiver_loop w (Inr (data_in, addr) # rs) k)) =
           [Recvfrom 1024,
            Stdout (log_line (now w k) (''Error receiving: '' @ decode_error w data_in)),
            Sleep 1]"
  using assms by (simp add: decode_utf8_def log_def case_prod_beta)

theorem receiver_loop_decode_failure_as_receive_failure_witness:
  "\<not> valid_utf8 [0xC3] \<and>
   receiver_loop example_world [Inr ([0xC3], (''10.0.0.2'', 37020))] 0 =
     receiver_loop example_world [Inl (Exception (decode_error example_world [0xC3]))] 0 \<and>
   take 3 (fst (receiver_loop example_world [Inr ([0xC3], (''10.0.0.2'', 37020))] 0)) =
     [Recvfrom 1024,
      Stdout (log_line (now example_world 0)
                (''Error receiving: '' @ decode_error example_world [0xC3])),
      Sleep 1] \<and>
   log_line (now example_world 0) (''Error receiving: '' @ decode_error example_world [0xC3]) =
     ''[09:05:07.123] Error receiving: invalid start byte''"
proof -
  have h1: "\<not> valid_utf8 [0xC3]" by simp
  have l: "log_line (now example_world 0)
       (''Error receiving: '' @ decode_error example_world [0xC3]) =
     ''[09:05:07.123] Error receiving: invalid start byte''"
    by (simp add: log_line_def example_timestamp) (simp add: example_world_def)
  from h1 l
    receiver_loop_decode_failure_as_receive_failure [OF h1, of example_world
      "(''10.0.0.2'', 37020)" "[]" 0]
  show ?thesis by (intro conjI) blast+
qed

end
